theory Spec2Isabelle
  imports Complex_Main
begin

section \<open>Values\<close>

text \<open>
  The numbers held by a pandas column are IEEE doubles. A finite value is modelled by the
  real number it stands for, and the special values are kept: \<open>Fin 0\<close> is \<open>+0.0\<close>,
  \<open>NZero\<close> is \<open>-0.0\<close>. The result of an operation overflows to an infinity and
  underflows to a zero as a double does; rounding to 53 bits inside the range is left
  out.
\<close>

datatype pyfloat = Fin real | NZero | PInf | NInf | NaN

fun is_nan :: "pyfloat \<Rightarrow> bool" where
  "is_nan NaN = True"
| "is_nan _ = False"

fun is_inf :: "pyfloat \<Rightarrow> bool" where
  "is_inf PInf = True"
| "is_inf NInf = True"
| "is_inf _ = False"

fun is_zero :: "pyfloat \<Rightarrow> bool" where
  "is_zero (Fin x) = (x = 0)"
| "is_zero NZero = True"
| "is_zero _ = False"

text \<open>The sign bit (of no use on \<open>NaN\<close>).\<close>

fun negative :: "pyfloat \<Rightarrow> bool" where
  "negative (Fin x) = (x < 0)"
| "negative NZero = True"
| "negative NInf = True"
| "negative _ = False"

text \<open>The real number of a finite value.\<close>

fun mag :: "pyfloat \<Rightarrow> real" where
  "mag (Fin x) = x"
| "mag _ = 0"

definition zero_of :: "bool \<Rightarrow> pyfloat" where
  "zero_of neg = (if neg then NZero else Fin 0)"

definition inf_of :: "bool \<Rightarrow> pyfloat" where
  "inf_of neg = (if neg then NInf else PInf)"

text \<open>
  The double for an exact result \<open>x\<close>, under rounding to nearest: from
  \<open>2^1024 - 2^970\<close> on (half a step above the largest double) it is an infinity, up to
  \<open>2^-1075\<close> (half the smallest double) it is a zero, with the sign of \<open>x\<close>.
\<close>

definition huge :: real where
  "huge = 2 ^ 1024 - 2 ^ 970"

definition tiny :: real where
  "tiny = 1 / 2 ^ 1075"

definition fin :: "real \<Rightarrow> pyfloat" where
  "fin x =
     (if huge \<le> \<bar>x\<bar> then inf_of (x < 0)
      else if \<bar>x\<bar> \<le> tiny then zero_of (x < 0)
      else Fin x)"

text \<open>
  \<open>x * y\<close>, \<open>x / y\<close>, \<open>x + y\<close>, \<open>- x\<close>, \<open>x - y\<close> and \<open>sqrt x\<close> of numpy on doubles, under
  pandas' \<open>errstate(all='ignore')\<close>: a division by zero raises nothing, it gives an
  infinity, or \<open>NaN\<close> for \<open>0 / 0\<close>.
\<close>

definition fmul :: "pyfloat \<Rightarrow> pyfloat \<Rightarrow> pyfloat" where
  "fmul x y =
     (if is_nan x \<or> is_nan y then NaN
      else if (is_inf x \<and> is_zero y) \<or> (is_zero x \<and> is_inf y) then NaN
      else if is_inf x \<or> is_inf y then inf_of (negative x \<noteq> negative y)
      else if is_zero x \<or> is_zero y then zero_of (negative x \<noteq> negative y)
      else fin (mag x * mag y))"

definition fdiv :: "pyfloat \<Rightarrow> pyfloat \<Rightarrow> pyfloat" where
  "fdiv x y =
     (if is_nan x \<or> is_nan y then NaN
      else if (is_zero x \<and> is_zero y) \<or> (is_inf x \<and> is_inf y) then NaN
      else if is_inf x \<or> is_zero y then inf_of (negative x \<noteq> negative y)
      else if is_zero x \<or> is_inf y then zero_of (negative x \<noteq> negative y)
      else fin (mag x / mag y))"

definition fadd :: "pyfloat \<Rightarrow> pyfloat \<Rightarrow> pyfloat" where
  "fadd x y =
     (if is_nan x \<or> is_nan y then NaN
      else if is_inf x \<and> is_inf y then (if negative x = negative y then x else NaN)
      else if is_inf x then x
      else if is_inf y then y
      else if x = NZero \<and> y = NZero then NZero
      else fin (mag x + mag y))"

fun fneg :: "pyfloat \<Rightarrow> pyfloat" where
  "fneg (Fin x) = (if x = 0 then NZero else Fin (- x))"
| "fneg NZero = Fin 0"
| "fneg PInf = NInf"
| "fneg NInf = PInf"
| "fneg NaN = NaN"

definition fsub :: "pyfloat \<Rightarrow> pyfloat \<Rightarrow> pyfloat" where
  "fsub x y = fadd x (fneg y)"

fun fsqrt :: "pyfloat \<Rightarrow> pyfloat" where
  "fsqrt (Fin x) = (if x < 0 then NaN else Fin (sqrt x))"
| "fsqrt NZero = NZero"
| "fsqrt PInf = PInf"
| "fsqrt NInf = NaN"
| "fsqrt NaN = NaN"

text \<open>\<open>numpy.sum\<close> of a column: it starts from \<open>0.0\<close>, a \<open>NaN\<close> makes the sum \<open>NaN\<close>.\<close>

definition fsum :: "pyfloat list \<Rightarrow> pyfloat" where
  "fsum xs = foldl fadd (Fin 0) xs"

text \<open>The values that are not missing (\<open>skipna\<close>).\<close>

definition notna :: "pyfloat list \<Rightarrow> pyfloat list" where
  "notna vs = filter (\<lambda>v. \<not> is_nan v) vs"

section \<open>Dates, series and frames\<close>

text \<open>
  The timestamps of the API are calendar days. A \<open>pd.Series\<close> indexed by date is the
  list of its rows, in the order of its index: the order and repeated dates matter to
  \<open>pd.concat\<close>.
\<close>

datatype date = Date (year: int) (month: nat) (day: nat)

definition date_less :: "date \<Rightarrow> date \<Rightarrow> bool" where
  "date_less a b =
     (year a < year b \<or> (year a = year b \<and>
        (month a < month b \<or> (month a = month b \<and> day a < day b))))"

type_synonym series = "(date \<times> pyfloat) list"

definition index :: "series \<Rightarrow> date list" where
  "index s = map fst s"

text \<open>\<open>s[d]\<close> for a date of the index.\<close>

definition value_at :: "series \<Rightarrow> date \<Rightarrow> pyfloat option" where
  "value_at s d = map_of s d"

text \<open>Ordered by date ascending, no date twice.\<close>

definition ascending :: "series \<Rightarrow> bool" where
  "ascending s = sorted_wrt date_less (index s)"

datatype error =
    ValueError string
  | KeyError string
  | TypeError string
  | IndexError string
  | AttributeError string
  | RequestException string

section \<open>The rate calculation\<close>

text \<open>
  \<open>pd.concat([a, b], axis=1, join='inner')\<close> of two series: the index of the result is
  the intersection of the two indexes, in the order of the first, and each series is
  reindexed to it. Reindexing a series whose index repeats a date raises
  \<open>ValueError: cannot reindex on an axis with duplicate labels\<close>. (When the two series
  share one index object pandas skips the reindexing; object identity is outside this
  model, the two arguments are separate objects.)
\<close>

definition concat_inner :: "series \<Rightarrow> series \<Rightarrow> error + (date \<times> pyfloat \<times> pyfloat) list" where
  "concat_inner a b =
     (if distinct (index a) \<and> distinct (index b)
      then Inr (concat (map (\<lambda>(d, x). case value_at b d of None \<Rightarrow> [] | Some y \<Rightarrow> [(d, x, y)]) a))
      else Inl (ValueError ''cannot reindex on an axis with duplicate labels''))"

text \<open>\<open>CorporateTaxDataFetcher.calculate_effective_tax_rate\<close> (fetch_corporate_tax_data.py).\<close>

definition calculate_effective_tax_rate :: "series \<Rightarrow> series \<Rightarrow> error + series" where
  "calculate_effective_tax_rate tax_receipts profits_before_tax =
     (case concat_inner tax_receipts profits_before_tax of
        Inl e \<Rightarrow> Inl e
      | Inr aligned \<Rightarrow>
          Inr (map (\<lambda>(d, tax, profit). (d, fmul (fdiv tax profit) (Fin 100))) aligned))"

text \<open>\<open>calculate_effective_rate\<close> (simple_effective_tax_rate.py).\<close>

definition calculate_effective_rate :: "series \<Rightarrow> series \<Rightarrow> error + series" where
  "calculate_effective_rate tax_receipts profits_before_tax =
     (case concat_inner tax_receipts profits_before_tax of
        Inl e \<Rightarrow> Inl e
      | Inr combined \<Rightarrow>
          Inr (map (\<lambda>(d, taxes, profits). (d, fmul (fdiv taxes profits) (Fin 100))) combined))"

section \<open>The environment: pandas' parsers, the network, standard output\<close>

text \<open>
  \<open>pd.to_datetime\<close> and \<open>pd.to_numeric(errors='coerce')\<close> read many spellings, which
  differ between pandas versions; they are parameters of the model. \<open>to_datetime\<close>
  raises on a string it cannot read (\<open>Inl\<close>), or gives a date, or \<open>NaT\<close> (\<open>None\<close>);
  \<open>to_numeric\<close> never raises: a string that fails coercion becomes \<open>NaN\<close>.
\<close>

record pandas =
  to_datetime :: "string \<Rightarrow> error + date option"
  to_numeric :: "string \<Rightarrow> pyfloat"

text \<open>
  What \<open>requests.get(url, params=params)\<close> is called with (\<open>requests\<close> leaves out a
  parameter whose value is \<open>None\<close>), and what comes back: an exception of the
  \<open>RequestException\<close> family with its text, or a response. The body of a response is
  a JSON object, of which only the key \<open>observations\<close> is read: a list of
  \<open>(date, value)\<close> strings, or \<open>None\<close> when the key is absent (an error document).
  \<open>http_error\<close> is the text of the \<open>HTTPError\<close> that \<open>raise_for_status\<close> builds.
\<close>

record request =
  url :: string
  params :: "(string \<times> string option) list"

record response =
  status_code :: nat
  http_error :: string
  observations :: "(string \<times> string) list option"

datatype http_outcome = Raises string | Returns response

text \<open>\<open>response.raise_for_status()\<close> raises for a status from 400 to 599.\<close>

definition raises_for_status :: "response \<Rightarrow> bool" where
  "raises_for_status r = (400 \<le> status_code r \<and> status_code r < 600)"

text \<open>The effects: the requests sent so far and the lines printed so far.\<close>

record world =
  sent :: "request list"
  stdout :: "string list"

definition print :: "string \<Rightarrow> world \<Rightarrow> world" where
  "print line w = w\<lparr>stdout := stdout w @ [line]\<rparr>"

definition send :: "request \<Rightarrow> world \<Rightarrow> world" where
  "send r w = w\<lparr>sent := sent w @ [r]\<rparr>"

text \<open>Python's truth value of an optional string: \<open>None\<close> and \<open>''\<close> are false.\<close>

definition truthy :: "string option \<Rightarrow> bool" where
  "truthy s = (s \<noteq> None \<and> s \<noteq> Some [])"

section \<open>Fetching a series\<close>

text \<open>
  A \<open>pd.DataFrame\<close> as the program builds them: \<open>pd.DataFrame()\<close>, with no column and
  no date index, or a frame with the one column \<open>value\<close> indexed by date.
\<close>

datatype frame = NoColumns | Frame series

definition empty :: "frame \<Rightarrow> bool" where
  "empty df = (case df of NoColumns \<Rightarrow> True | Frame rows \<Rightarrow> rows = [])"

text \<open>\<open>df['value']\<close>.\<close>

definition value_column :: "frame \<Rightarrow> error + series" where
  "value_column df = (case df of NoColumns \<Rightarrow> Inl (KeyError ''value'') | Frame rows \<Rightarrow> Inr rows)"

text \<open>\<open>pd.to_datetime\<close> of a column: the first string that cannot be read raises.\<close>

fun datetime_column :: "pandas \<Rightarrow> string list \<Rightarrow> error + date option list" where
  "datetime_column pd [] = Inr []"
| "datetime_column pd (s # ss) =
     (case to_datetime pd s of
        Inl e \<Rightarrow> Inl e
      | Inr d \<Rightarrow> (case datetime_column pd ss of Inl e \<Rightarrow> Inl e | Inr ds \<Rightarrow> Inr (d # ds)))"

text \<open>\<open>df[['date', 'value']].dropna()\<close>: a row with a \<open>NaT\<close> or a \<open>NaN\<close> goes, the others stay
  in their order. An infinity is not missing.\<close>

fun dropna :: "(date option \<times> pyfloat) list \<Rightarrow> series" where
  "dropna [] = []"
| "dropna ((None, v) # rows) = dropna rows"
| "dropna ((Some d, v) # rows) = (if is_nan v then dropna rows else (d, v) # dropna rows)"

text \<open>
  The lines under \<open># Convert to DataFrame\<close>, the same in \<open>fetch_series\<close> and in
  \<open>fetch_fred_series\<close>. \<open>pd.DataFrame([])\<close> has no column, so \<open>df['date']\<close> raises
  \<open>KeyError\<close> when the list of observations is empty.
\<close>

definition convert_to_dataframe :: "pandas \<Rightarrow> (string \<times> string) list \<Rightarrow> error + frame" where
  "convert_to_dataframe pd obs =
     (if obs = [] then Inl (KeyError ''date'')
      else case datetime_column pd (map fst obs) of
        Inl e \<Rightarrow> Inl e
      | Inr dates \<Rightarrow> Inr (Frame (dropna (zip dates (map (\<lambda>row. to_numeric pd (snd row)) obs)))))"

text \<open>\<open>CorporateTaxDataFetcher\<close>: the fields the methods read.\<close>

record fetcher =
  api_key :: "string option"
  base_url :: string

definition CorporateTaxDataFetcher :: "string option \<Rightarrow> fetcher" where
  "CorporateTaxDataFetcher key =
     \<lparr>api_key = key, base_url = ''https://api.stlouisfed.org/fred/series/observations''\<rparr>"

text \<open>
  \<open>CorporateTaxDataFetcher.fetch_series\<close>. The handler catches \<open>RequestException\<close>
  only: what \<open>requests.get\<close> raises and the \<open>HTTPError\<close> of \<open>raise_for_status\<close>; a
  \<open>KeyError\<close> or \<open>ValueError\<close> of the conversion goes through.
\<close>

definition fetch_series ::
  "pandas \<Rightarrow> (request \<Rightarrow> http_outcome) \<Rightarrow> fetcher \<Rightarrow> string \<Rightarrow> string option \<Rightarrow> string option
     \<Rightarrow> world \<Rightarrow> (error + frame) \<times> world" where
  "fetch_series pd net self series_id start_date end_date w =
     (if \<not> truthy (api_key self)
      then (Inl (ValueError
        ''API key not set. Get your free API key at: https://fred.stlouisfed.org/docs/api/api_key.html''), w)
      else
        let req = \<lparr>url = base_url self,
                   params = [(''series_id'', Some series_id), (''api_key'', api_key self),
                             (''file_type'', Some ''json''), (''sort_order'', Some ''asc'')]
                          @ (if truthy start_date then [(''observation_start'', start_date)] else [])
                          @ (if truthy end_date then [(''observation_end'', end_date)] else [])\<rparr>;
            w1 = send req w
        in case net req of
             Raises e \<Rightarrow>
               (Inr NoColumns, print (''Error fetching data for '' @ series_id @ '': '' @ e) w1)
           | Returns r \<Rightarrow>
               if raises_for_status r
               then (Inr NoColumns,
                     print (''Error fetching data for '' @ series_id @ '': '' @ http_error r) w1)
               else (case observations r of
                       None \<Rightarrow> (Inl (KeyError ''observations''), w1)
                     | Some obs \<Rightarrow> (convert_to_dataframe pd obs, w1)))"

text \<open>\<open>fetch_fred_series\<close> (simple_effective_tax_rate.py): no check of the key, no
  \<open>raise_for_status\<close>, no handler.\<close>

definition fetch_fred_series ::
  "pandas \<Rightarrow> (request \<Rightarrow> http_outcome) \<Rightarrow> string \<Rightarrow> string option \<Rightarrow> string
     \<Rightarrow> world \<Rightarrow> (error + frame) \<times> world" where
  "fetch_fred_series pd net series_id key start_date w =
     (let req = \<lparr>url = ''https://api.stlouisfed.org/fred/series/observations'',
                 params = [(''series_id'', Some series_id), (''api_key'', key),
                           (''file_type'', Some ''json''), (''observation_start'', Some start_date),
                           (''sort_order'', Some ''asc'')]\<rparr>;
          w1 = send req w
      in case net req of
           Raises e \<Rightarrow> (Inl (RequestException e), w1)
         | Returns r \<Rightarrow>
             (case observations r of
                None \<Rightarrow> (Inl (KeyError ''observations''), w1)
              | Some obs \<Rightarrow> (convert_to_dataframe pd obs, w1)))"

section \<open>Quarterly to annual\<close>

text \<open>
  \<open>.resample('A').sum()\<close> on a date index: one bin for each calendar year from the year
  of the earliest row to the year of the latest, labelled with the year's last day; the
  value of a bin is the sum of its rows, \<open>NaN\<close>s skipped, and the sum of a bin with no
  row is \<open>0.0\<close>. The rows need not come in order. Without a row there is no bin.
  (\<open>'A'\<close> is the year-end alias of pandas before version 3.)
\<close>

definition years :: "series \<Rightarrow> int list" where
  "years s = map (\<lambda>row. year (fst row)) s"

definition resample_A_sum :: "series \<Rightarrow> series" where
  "resample_A_sum s =
     (if s = [] then []
      else map (\<lambda>Y. (Date Y 12 31,
                      fsum (notna (map snd (filter (\<lambda>row. year (fst row) = Y) s)))))
             [Min (set (years s)) .. Max (set (years s))])"

text \<open>On a frame: \<open>pd.DataFrame()\<close> has no date index, and \<open>resample\<close> raises.\<close>

definition resample_A_sum_frame :: "frame \<Rightarrow> error + frame" where
  "resample_A_sum_frame df =
     (case df of
        NoColumns \<Rightarrow> Inl (TypeError ''Only valid with DatetimeIndex, TimedeltaIndex or PeriodIndex'')
      | Frame rows \<Rightarrow> Inr (Frame (resample_A_sum rows)))"

section \<open>Fetching everything\<close>

definition prints :: "string list \<Rightarrow> world \<Rightarrow> world" where
  "prints ls w = foldl (\<lambda>w l. print l w) w ls"

definition and_then :: "error + 'a \<Rightarrow> ('a \<Rightarrow> error + 'b) \<Rightarrow> error + 'b" where
  "and_then r f = (case r of Inl e \<Rightarrow> Inl e | Inr x \<Rightarrow> f x)"

datatype item = DataFrame frame | Series series

text \<open>The block \<open>if not tax_receipts_q.empty and not profits_before_tax_q.empty\<close>: the
  entries it adds to \<open>results\<close>.\<close>

definition quarterly_rate ::
  "frame \<Rightarrow> frame \<Rightarrow> world \<Rightarrow> (error + (string \<times> item) list) \<times> world" where
  "quarterly_rate tax_receipts_q profits_before_tax_q w =
     (if \<not> empty tax_receipts_q \<and> \<not> empty profits_before_tax_q
      then (and_then (value_column tax_receipts_q) (\<lambda>tax.
            and_then (value_column profits_before_tax_q) (\<lambda>profits.
            and_then (calculate_effective_tax_rate tax profits) (\<lambda>effective_rate_q.
            Inr [(''effective_tax_rate_quarterly'', Series effective_rate_q)]))),
            prints ['''', ''Calculating quarterly effective tax rate...''] w)
      else (Inr [], w))"

text \<open>The block \<open>if not profits_before_tax_q.empty\<close>.\<close>

definition annual_rate ::
  "frame \<Rightarrow> frame \<Rightarrow> world \<Rightarrow> (error + (string \<times> item) list) \<times> world" where
  "annual_rate tax_receipts_q profits_before_tax_q w =
     (if \<not> empty profits_before_tax_q
      then (and_then (resample_A_sum_frame profits_before_tax_q) (\<lambda>profits_before_tax_a.
            and_then (resample_A_sum_frame tax_receipts_q) (\<lambda>tax_receipts_q_annual.
            and_then (value_column tax_receipts_q_annual) (\<lambda>tax.
            and_then (value_column profits_before_tax_a) (\<lambda>profits.
            and_then (calculate_effective_tax_rate tax profits) (\<lambda>effective_rate_a.
            Inr [(''effective_tax_rate_annual'', Series effective_rate_a)]))))),
            prints ['''', ''Converting quarterly data to annual...''] w)
      else (Inr [], w))"

text \<open>
  \<open>CorporateTaxDataFetcher.fetch_all_corporate_tax_data\<close>. \<open>results\<close> is the dictionary
  in the order its keys are set; an exception ends the call and leaves what was printed
  and sent. \<open>print("\nX")\<close> writes an empty line and the line \<open>X\<close>.
\<close>

definition fetch_all_corporate_tax_data ::
  "pandas \<Rightarrow> (request \<Rightarrow> http_outcome) \<Rightarrow> fetcher \<Rightarrow> string option
     \<Rightarrow> world \<Rightarrow> (error + (string \<times> item) list) \<times> world" where
  "fetch_all_corporate_tax_data pd net self start_date w0 =
     (let w1 = prints [''Fetching corporate tax data from FRED...'', '''',
                       ''Fetching quarterly data:'',
                       ''- Federal tax receipts on corporate income...''] w0
      in case fetch_series pd net self ''B075RC1Q027SBEA'' start_date None w1 of
        (Inl e, w2) \<Rightarrow> (Inl e, w2)
      | (Inr tax_receipts_q, w2) \<Rightarrow>
     (case fetch_series pd net self ''A053RC1Q027SBEA'' start_date None
             (print ''- Corporate profits before tax...'' w2) of
        (Inl e, w3) \<Rightarrow> (Inl e, w3)
      | (Inr profits_before_tax_q, w3) \<Rightarrow>
     (case fetch_series pd net self ''CP'' start_date None
             (print ''- Corporate profits after tax...'' w3) of
        (Inl e, w4) \<Rightarrow> (Inl e, w4)
      | (Inr profits_after_tax_q, w4) \<Rightarrow>
     (case quarterly_rate tax_receipts_q profits_before_tax_q w4 of
        (Inl e, w5) \<Rightarrow> (Inl e, w5)
      | (Inr rate_q, w5) \<Rightarrow>
     (case fetch_series pd net self ''FCTAX'' start_date None
             (prints ['''', ''Fetching annual data:'',
                      ''- Federal tax receipts on corporate income (annual)...''] w5) of
        (Inl e, w6) \<Rightarrow> (Inl e, w6)
      | (Inr tax_receipts_a, w6) \<Rightarrow>
     (case annual_rate tax_receipts_q profits_before_tax_q w6 of
        (Inl e, w7) \<Rightarrow> (Inl e, w7)
      | (Inr rate_a, w7) \<Rightarrow>
          (Inr ([(''tax_receipts_quarterly'', DataFrame tax_receipts_q),
                 (''profits_before_tax_quarterly'', DataFrame profits_before_tax_q),
                 (''profits_after_tax_quarterly'', DataFrame profits_after_tax_q)]
                @ rate_q @ [(''tax_receipts_annual'', DataFrame tax_receipts_a)] @ rate_a),
           w7)))))))"

section \<open>Summary statistics\<close>

text \<open>
  \<open>Series.mean()\<close> and \<open>Series.std()\<close>, that is \<open>nanmean\<close> and the square root of
  \<open>nanvar\<close>: the \<open>NaN\<close>s are left out first. \<open>ddof\<close> is the "delta degrees of freedom";
  with no more than \<open>ddof\<close> values the variance is \<open>NaN\<close>.
\<close>

definition mean :: "pyfloat list \<Rightarrow> pyfloat" where
  "mean vs =
     (let xs = notna vs
      in if xs = [] then NaN else fdiv (fsum xs) (Fin (real (length xs))))"

definition var :: "nat \<Rightarrow> pyfloat list \<Rightarrow> pyfloat" where
  "var ddof vs =
     (let xs = notna vs; count = length xs
      in if count \<le> ddof then NaN
         else let avg = fdiv (fsum xs) (Fin (real count));
                  sqr = map (\<lambda>x. fmul (fsub avg x) (fsub avg x)) xs
              in fdiv (fsum sqr) (Fin (real (count - ddof))))"

definition std :: "nat \<Rightarrow> pyfloat list \<Rightarrow> pyfloat" where
  "std ddof vs = fsqrt (var ddof vs)"

definition decades :: "int list" where
  "decades = map (\<lambda>k. 1950 + 10 * int k) [0..<8]"

definition decade_data :: "series \<Rightarrow> int \<Rightarrow> series" where
  "decade_data rate_q decade =
     filter (\<lambda>row. year (fst row) \<ge> decade \<and> year (fst row) < decade + 10) rate_q"

text \<open>
  \<open>summary_statistics\<close>. Of the lines it writes for a rate series the model keeps the
  number on the line \<open>Std Dev\<close> (\<open>rate.std()\<close>: \<open>ddof\<close> has its default, 1) and, for the
  quarterly rates, the lines under \<open>Decade Averages\<close>, each as the decade and the mean it
  shows; the rendering with two decimals is left out. A block can raise, and what it
  wrote before stays written: \<open>rate.index[0]\<close> raises \<open>IndexError\<close> on a series with no
  row, before any line; on a series with no value but \<open>NaN\<close> the lines \<open>Mean\<close>, \<open>Median\<close>
  and \<open>Std Dev\<close> are written, and then \<open>rate.idxmin()\<close> is \<open>NaN\<close>, a float, which has no
  \<open>strftime\<close> and no \<open>year\<close>: \<open>AttributeError\<close> on the line \<open>Min\<close>, before the decades.
\<close>

record summary =
  std_dev :: "pyfloat option"
  decade_averages :: "(int \<times> pyfloat) list"
  raised :: "error option"

text \<open>The block \<open>if 'effective_tax_rate_quarterly' in data_dict\<close>.\<close>

definition summary_quarterly :: "series \<Rightarrow> summary" where
  "summary_quarterly rate_q =
     (if rate_q = []
      then \<lparr>std_dev = None, decade_averages = [],
            raised = Some (IndexError ''index 0 is out of bounds for axis 0 with size 0'')\<rparr>
      else if notna (map snd rate_q) = []
      then \<lparr>std_dev = Some (std 1 (map snd rate_q)), decade_averages = [],
            raised = Some (AttributeError ''strftime'')\<rparr>
      else \<lparr>std_dev = Some (std 1 (map snd rate_q)),
            decade_averages =
              concat (map (\<lambda>decade. if decade_data rate_q decade \<noteq> []
                                     then [(decade, mean (map snd (decade_data rate_q decade)))]
                                     else [])
                          decades),
            raised = None\<rparr>)"

text \<open>The block \<open>if 'effective_tax_rate_annual' in data_dict\<close>: no decade lines.\<close>

definition summary_annual :: "series \<Rightarrow> summary" where
  "summary_annual rate_a =
     (if rate_a = []
      then \<lparr>std_dev = None, decade_averages = [],
            raised = Some (IndexError ''index 0 is out of bounds for axis 0 with size 0'')\<rparr>
      else if notna (map snd rate_a) = []
      then \<lparr>std_dev = Some (std 1 (map snd rate_a)), decade_averages = [],
            raised = Some (AttributeError ''year'')\<rparr>
      else \<lparr>std_dev = Some (std 1 (map snd rate_a)), decade_averages = [], raised = None\<rparr>)"

text \<open>
  The whole function on the dictionary that \<open>fetch_all_corporate_tax_data\<close> returns: the
  quarterly block when its key is there, then, unless that raised, the annual block when
  its key is there. (A frame under one of the two keys is not what
  \<open>fetch_all_corporate_tax_data\<close> puts there: with no row \<open>index[0]\<close> raises, otherwise
  the frame's mean cannot be formatted, and no line of the model is written.)
\<close>

definition summary_of :: "(series \<Rightarrow> summary) \<Rightarrow> item option \<Rightarrow> summary option" where
  "summary_of block entry =
     (case entry of
        None \<Rightarrow> None
      | Some (Series rate) \<Rightarrow> Some (block rate)
      | Some (DataFrame df) \<Rightarrow>
          Some \<lparr>std_dev = None, decade_averages = [],
                raised = Some (if empty df
                  then IndexError ''index 0 is out of bounds for axis 0 with size 0''
                  else TypeError ''unsupported format string passed to Series.__format__'')\<rparr>)"

definition summary_statistics :: "(string \<times> item) list \<Rightarrow> summary option \<times> summary option" where
  "summary_statistics data_dict =
     (let quarterly = summary_of summary_quarterly (map_of data_dict ''effective_tax_rate_quarterly'')
      in if (case quarterly of None \<Rightarrow> False | Some lines \<Rightarrow> raised lines \<noteq> None)
         then (quarterly, None)
         else (quarterly,
               summary_of summary_annual (map_of data_dict ''effective_tax_rate_annual'')))"

section \<open>A sample of the parsers\<close>

text \<open>
  To run the model on a concrete response the two parsers must be given. This sample
  reads what the API writes: a date as \<open>YYYY-MM-DD\<close> and a value as digits, a point and
  digits, with a minus sign or without. On such strings it is what pandas reads (\<open>.\<close>,
  the API's mark of a missing value, is not a number: \<open>NaN\<close>). On any other string the
  sample raises or gives \<open>NaN\<close>, which need not be what pandas does; it is never run on
  one.
\<close>

definition is_digit :: "char \<Rightarrow> bool" where
  "is_digit c = (48 \<le> (of_char c :: nat) \<and> (of_char c :: nat) \<le> 57)"

definition number :: "string \<Rightarrow> nat" where
  "number s = foldl (\<lambda>n c. 10 * n + (of_char c - 48)) 0 s"

definition leap_year :: "nat \<Rightarrow> bool" where
  "leap_year y = (y mod 4 = 0 \<and> (y mod 100 \<noteq> 0 \<or> y mod 400 = 0))"

definition days_in_month :: "nat \<Rightarrow> nat \<Rightarrow> nat" where
  "days_in_month y m =
     (if m = 2 then (if leap_year y then 29 else 28)
      else if m = 4 \<or> m = 6 \<or> m = 9 \<or> m = 11 then 30 else 31)"

definition iso_dates :: "string \<Rightarrow> error + date option" where
  "iso_dates s =
     (let y = number (take 4 s); m = number (take 2 (drop 5 s)); d = number (drop 8 s)
      in if length s = 10 \<and> s ! 4 = CHR ''-'' \<and> s ! 7 = CHR ''-''
            \<and> list_all is_digit (take 4 s @ take 2 (drop 5 s) @ drop 8 s)
            \<and> 1678 \<le> y \<and> y \<le> 2261 \<and> 1 \<le> m \<and> m \<le> 12 \<and> 1 \<le> d \<and> d \<le> days_in_month y m
         then Inr (Some (Date (int y) m d))
         else Inl (ValueError ''time data does not match format''))"

definition plain_decimals :: "string \<Rightarrow> pyfloat" where
  "plain_decimals s =
     (let neg = (s \<noteq> [] \<and> hd s = CHR ''-'');
          t = (if neg then tl s else s);
          whole = takeWhile is_digit t;
          rest = dropWhile is_digit t
      in if whole \<noteq> [] \<and> rest \<noteq> [] \<and> hd rest = CHR ''.'' \<and> tl rest \<noteq> []
            \<and> list_all is_digit (tl rest)
         then let x = real (number whole) + real (number (tl rest)) / 10 ^ length (tl rest)
              in if x = 0 then zero_of neg else fin (if neg then - x else x)
         else NaN)"

definition pd_sample :: pandas where
  "pd_sample = \<lparr>to_datetime = iso_dates, to_numeric = plain_decimals\<rparr>"

text \<open>A network that answers every request with status 200 and the given observations,
  and one where every request fails with the given text.\<close>

definition answers :: "(string \<times> string) list \<Rightarrow> request \<Rightarrow> http_outcome" where
  "answers obs req = Returns \<lparr>status_code = 200, http_error = [], observations = Some obs\<rparr>"

definition unreachable :: "string \<Rightarrow> request \<Rightarrow> http_outcome" where
  "unreachable e req = Raises e"

definition nothing_yet :: world where
  "nothing_yet = \<lparr>sent = [], stdout = []\<rparr>"

section \<open>Auxiliary definitions\<close>

text \<open>The rows of the rate series of two series without repeated dates: the rows of the
  first whose date the second has too, each with its percentage.\<close>

definition rate_rows :: "series \<Rightarrow> series \<Rightarrow> series" where
  "rate_rows a b = map (\<lambda>(d, tax, profit). (d, fmul (fdiv tax profit) (Fin 100)))
     (concat (map (\<lambda>(d, x). case value_at b d of None \<Rightarrow> [] | Some y \<Rightarrow> [(d, x, y)]) a))"

text \<open>A request that fails at the transport level (\<open>requests.get\<close> raises) or at the
  HTTP level (an error status), with the text of the exception.\<close>

definition failure :: "http_outcome \<Rightarrow> string option" where
  "failure out =
     (case out of
        Raises e \<Rightarrow> Some e
      | Returns r \<Rightarrow> if raises_for_status r then Some (http_error r) else None)"

text \<open>The sample standard deviation of a list of reals, as the specification words it:
  the denominator is \<open>N - 1\<close>.\<close>

definition sample_std :: "real list \<Rightarrow> real" where
  "sample_std xs =
     (let N = real (length xs); m = sum_list xs / N
      in sqrt ((\<Sum>x\<leftarrow>xs. (x - m)\<^sup>2) / (N - 1)))"

section \<open>Concrete inputs\<close>

text \<open>Two quarters of tax receipts and one of profits.\<close>

definition tax_example :: series where
  "tax_example = [(Date 2020 1 1, Fin 100), (Date 2020 4 1, Fin 100)]"

definition profit_example :: series where
  "profit_example = [(Date 2020 1 1, Fin 1000)]"

text \<open>Quarters with a loss, with no profit, and with neither profit nor tax.\<close>

definition loss_tax :: series where
  "loss_tax = [(Date 2008 10 1, Fin 50), (Date 2009 1 1, Fin 5), (Date 2009 4 1, Fin 0)]"

definition loss_profit :: series where
  "loss_profit = [(Date 2008 10 1, Fin (- 200)), (Date 2009 1 1, Fin 0), (Date 2009 4 1, Fin 0)]"

text \<open>Observations of a response: one with a missing value, one in descending order, one
  with a date twice.\<close>

definition missing_example :: "(string \<times> string) list" where
  "missing_example = [(''2020-01-01'', ''5.0''), (''2020-04-01'', ''.'')]"

definition descending_example :: "(string \<times> string) list" where
  "descending_example = [(''2020-04-01'', ''1.0''), (''2020-01-01'', ''2.0'')]"

definition repeated_example :: "(string \<times> string) list" where
  "repeated_example = [(''2020-01-01'', ''1.0''), (''2020-01-01'', ''2.0'')]"

text \<open>A server that answers every request with status 500 and an error document.\<close>

definition server_error :: "request \<Rightarrow> http_outcome" where
  "server_error req = Returns \<lparr>status_code = 500,
     http_error = ''500 Server Error: Internal Server Error'', observations = None\<rparr>"

text \<open>Quarterly values with no row in 2019.\<close>

definition gap_example :: series where
  "gap_example = [(Date 2018 1 1, Fin 1), (Date 2018 4 1, Fin 3), (Date 2020 1 1, Fin 2)]"



text \<open>Annual rates 0, 2 and 4, and a year with no rate.\<close>

definition spread_example :: series where
  "spread_example = [(Date 2019 12 31, Fin 0), (Date 2020 12 31, NaN), (Date 2021 12 31, Fin 2),
                     (Date 2022 12 31, Fin 4)]"

text \<open>An exact result that is a double's value as it is: zero, or inside the range.\<close>

definition in_range :: "real \<Rightarrow> bool" where
  "in_range x = (x = 0 \<or> (tiny < \<bar>x\<bar> \<and> \<bar>x\<bar> < huge))"

text \<open>Summing the list from the left, starting from \<open>a\<close>, every partial sum is in
  range.\<close>

fun partial_sums_in_range :: "real \<Rightarrow> real list \<Rightarrow> bool" where
  "partial_sums_in_range a [] = in_range a"
| "partial_sums_in_range a (x # xs) = (in_range a \<and> partial_sums_in_range (a + x) xs)"

definition sums_in_range :: "real list \<Rightarrow> bool" where
  "sums_in_range xs = partial_sums_in_range 0 xs"

text \<open>No step of \<open>std\<close> on the finite values \<open>xs\<close> leaves the range: the sum and the mean,
  the deviations and their squares, the sum of the squares and its quotient.\<close>

definition std_in_range :: "real list \<Rightarrow> bool" where
  "std_in_range xs =
     (let m = sum_list xs / real (length xs)
      in sums_in_range xs \<and> in_range m
         \<and> list_all (\<lambda>x. in_range (m - x) \<and> in_range ((x - m)\<^sup>2)) xs
         \<and> sums_in_range (map (\<lambda>x. (x - m)\<^sup>2) xs)
         \<and> in_range ((\<Sum>x\<leftarrow>xs. (x - m)\<^sup>2) / (real (length xs) - 1)))"



section \<open>The rate series\<close>

lemma calculate_effective_rate_eq: "calculate_effective_rate = calculate_effective_tax_rate"
  by (intro ext) (simp add: calculate_effective_rate_def calculate_effective_tax_rate_def)

lemma value_at_None: "value_at b d = None \<longleftrightarrow> d \<notin> set (index b)"
  by (simp add: value_at_def index_def map_of_eq_None_iff)

lemma rate_rows_Nil: "rate_rows [] b = []"
  by (simp add: rate_rows_def)

lemma rate_rows_Cons:
  "rate_rows ((d, x) # a) b =
     (case value_at b d of None \<Rightarrow> rate_rows a b
      | Some y \<Rightarrow> (d, fmul (fdiv x y) (Fin 100)) # rate_rows a b)"
  by (simp add: rate_rows_def split: option.splits)

text \<open>The calculation returns exactly when neither index repeats a date.\<close>

lemma calculate_Inr:
  "calculate_effective_tax_rate a b = Inr r \<longleftrightarrow>
     distinct (index a) \<and> distinct (index b) \<and> r = rate_rows a b"
  by (auto simp: calculate_effective_tax_rate_def concat_inner_def rate_rows_def)

lemma index_rate_rows: "index (rate_rows a b) = filter (\<lambda>d. d \<in> set (index b)) (index a)"
proof (induction a)
  case Nil
  show ?case by (simp add: rate_rows_Nil index_def)
next
  case (Cons row a)
  obtain d x where row: "row = (d, x)" by (cases row)
  show ?case
  proof (cases "value_at b d")
    case None
    with Cons row show ?thesis
      using value_at_None [of b d] by (simp add: rate_rows_Cons index_def)
  next
    case (Some y)
    then have "d \<in> set (index b)" using value_at_None [of b d] by auto
    with Cons row Some show ?thesis by (simp add: rate_rows_Cons index_def)
  qed
qed

lemma value_at_rate_rows:
  "value_at a d = Some x \<Longrightarrow> value_at b d = Some y \<Longrightarrow>
     value_at (rate_rows a b) d = Some (fmul (fdiv x y) (Fin 100))"
proof (induction a)
  case Nil
  then show ?case by (simp add: value_at_def)
next
  case (Cons row a)
  obtain d' x' where row: "row = (d', x')" by (cases row)
  show ?case
  proof (cases "d' = d")
    case True
    with Cons.prems row show ?thesis
      by (simp add: rate_rows_Cons) (simp add: value_at_def)
  next
    case False
    with Cons row have "value_at (rate_rows a b) d = Some (fmul (fdiv x y) (Fin 100))"
      by (simp add: value_at_def)
    with False row show ?thesis
      by (cases "value_at b d'") (simp_all add: rate_rows_Cons, simp_all add: value_at_def)
  qed
qed

lemma length_le_of_distinct_subset:
  "distinct xs \<Longrightarrow> set xs \<subseteq> set ys \<Longrightarrow> length xs \<le> length ys"
  by (metis card_length card_mono distinct_card finite_set le_trans)

text \<open>
  C1. For two series \<open>A\<close> and \<open>B\<close>, the rate series that \<open>calculate_effective_tax_rate\<close>
  or \<open>calculate_effective_rate\<close> returns has as its dates exactly the dates that are in
  both \<open>A\<close> and \<open>B\<close>, each once, and it is no longer than the shorter of the two. The
  calculation does return a series when neither \<open>A\<close> nor \<open>B\<close> has a date twice (a series
  of the data model); with a repeated date \<open>pd.concat\<close> raises and there is no rate
  series.
\<close>

theorem rate_domain_is_intersection:
  assumes "f = calculate_effective_tax_rate \<or> f = calculate_effective_rate"
  shows "(distinct (index A) \<and> distinct (index B) \<longrightarrow> (\<exists>r. f A B = Inr r))
       \<and> (\<forall>r. f A B = Inr r \<longrightarrow>
            set (index r) = set (index A) \<inter> set (index B)
          \<and> distinct (index r)
          \<and> length r \<le> min (length A) (length B))"
proof -
  from assms have f: "f = calculate_effective_tax_rate"
    by (auto simp: calculate_effective_rate_eq)
  have "length r \<le> min (length A) (length B)
      \<and> set (index r) = set (index A) \<inter> set (index B) \<and> distinct (index r)"
    if "f A B = Inr r" for r
  proof -
    from that f have dA: "distinct (index A)" and dB: "distinct (index B)"
      and r: "r = rate_rows A B"
      by (simp_all add: calculate_Inr)
    have ix: "index r = filter (\<lambda>d. d \<in> set (index B)) (index A)"
      by (simp add: r index_rate_rows)
    have "length (index r) \<le> length (index A)" by (simp add: ix)
    moreover have "length (index r) \<le> length (index B)"
      by (rule length_le_of_distinct_subset) (use dA in \<open>auto simp: ix\<close>)
    ultimately have "length r \<le> min (length A) (length B)"
      by (simp add: index_def)
    moreover have "set (index r) = set (index A) \<inter> set (index B)" by (auto simp: ix)
    moreover have "distinct (index r)" using dA by (simp add: ix)
    ultimately show ?thesis by blast
  qed
  moreover have "\<exists>r. f A B = Inr r" if "distinct (index A) \<and> distinct (index B)"
    using that f by (simp add: calculate_Inr)
  ultimately show ?thesis by blast
qed

text \<open>The example of the specification: the second quarter of the receipts has no
  profit beside it and is left out.\<close>

theorem rate_domain_witness:
  "calculate_effective_tax_rate tax_example profit_example = Inr [(Date 2020 1 1, Fin 10)]
   \<and> set (index [(Date 2020 1 1, Fin 10)]) = set (index tax_example) \<inter> set (index profit_example)
   \<and> length [(Date 2020 1 1, Fin 10)] \<le> min (length tax_example) (length profit_example)"
  using rate_domain_is_intersection [of calculate_effective_tax_rate tax_example profit_example]
  by (simp add: tax_example_def profit_example_def index_def value_at_def
      calculate_effective_tax_rate_def concat_inner_def fmul_def fdiv_def fin_def huge_def tiny_def)

lemma fin_in_range: "in_range x \<Longrightarrow> fin x = Fin x"
  by (auto simp: in_range_def fin_def zero_of_def tiny_def huge_def)

lemma percent_in_range:
  assumes "x \<noteq> 0" and "y \<noteq> 0" and "in_range (x / y)" and "in_range (x / y * 100)"
  shows "fmul (fdiv (Fin x) (Fin y)) (Fin 100) = Fin (100 * x / y)"
proof -
  have "fdiv (Fin x) (Fin y) = Fin (x / y)"
    using assms(1,2) by (simp add: fdiv_def fin_in_range [OF assms(3)])
  moreover have "fmul (Fin (x / y)) (Fin 100) = Fin (x / y * 100)"
    using assms(1,2) fin_in_range [OF assms(4)] by (simp add: fmul_def)
  ultimately show ?thesis by (simp add: mult.commute)
qed





lemma division_by_zero:
  "is_zero b \<Longrightarrow> is_inf (fmul (fdiv a b) (Fin 100)) \<or> is_nan (fmul (fdiv a b) (Fin 100))"
  by (cases a; cases b) (auto simp: fmul_def fdiv_def inf_of_def zero_of_def)

lemma division_by_negative:
  assumes "y < 0" and "x \<noteq> 0" and "in_range (x / y)" and "in_range (x / y * 100)"
  shows "fmul (fdiv (Fin x) (Fin y)) (Fin 100) = Fin (x / y * 100)"
  using percent_in_range [OF assms(2) _ assms(3,4)] assms(1) by (simp add: mult.commute)

text \<open>
  C10. For two series \<open>A\<close> and \<open>B\<close> (no date twice) and a shared date \<open>d\<close> at which \<open>B\<close> is
  zero or negative, the rate calculation raises nothing and keeps \<open>d\<close>: the value at \<open>d\<close>
  is the plain quotient times 100. For a zero \<open>B[d]\<close> that is an infinity or \<open>NaN\<close>; for a
  negative \<open>B[d]\<close> and a finite non-zero \<open>A[d]\<close> it is the negative percentage, when
  the quotient and the percentage are in the range of the doubles.
\<close>

theorem division_is_unguarded:
  assumes "f = calculate_effective_tax_rate \<or> f = calculate_effective_rate"
      and "distinct (index A)" and "distinct (index B)"
      and "value_at A d = Some a" and "value_at B d = Some b"
      and "is_zero b \<or> negative b"
  shows "\<exists>r v. f A B = Inr r \<and> d \<in> set (index r) \<and> value_at r d = Some v
           \<and> v = fmul (fdiv a b) (Fin 100)
           \<and> (is_zero b \<longrightarrow> is_inf v \<or> is_nan v)
           \<and> (\<forall>x y. a = Fin x \<and> b = Fin y \<and> x \<noteq> 0 \<and> y < 0
                    \<and> in_range (x / y) \<and> in_range (x / y * 100) \<longrightarrow> v = Fin (x / y * 100))"
proof -
  let ?v = "fmul (fdiv a b) (Fin 100)"
  from assms(1) have f: "f = calculate_effective_tax_rate"
    by (auto simp: calculate_effective_rate_eq)
  have r: "f A B = Inr (rate_rows A B)"
    using assms(2,3) by (simp add: f calculate_Inr)
  have v: "value_at (rate_rows A B) d = Some ?v"
    by (rule value_at_rate_rows [OF assms(4,5)])
  then have "d \<in> set (index (rate_rows A B))"
    using value_at_None [of "rate_rows A B" d] by auto
  moreover have "is_zero b \<longrightarrow> is_inf ?v \<or> is_nan ?v"
    by (simp add: division_by_zero)
  moreover have "\<forall>x y. a = Fin x \<and> b = Fin y \<and> x \<noteq> 0 \<and> y < 0
      \<and> in_range (x / y) \<and> in_range (x / y * 100) \<longrightarrow> ?v = Fin (x / y * 100)"
    using division_by_negative by blast
  ultimately show ?thesis using r v by blast
qed

text \<open>A loss gives a negative rate, no profit with some tax an infinite one, and \<open>0 / 0\<close>
  is \<open>NaN\<close>; the three quarters stay.\<close>

theorem division_is_unguarded_witness:
  "calculate_effective_tax_rate loss_tax loss_profit
     = Inr [(Date 2008 10 1, Fin (- 25)), (Date 2009 1 1, PInf), (Date 2009 4 1, NaN)]
   \<and> is_zero (Fin 0) \<and> is_inf (fmul (fdiv (Fin 5) (Fin 0)) (Fin 100))"
  using division_is_unguarded [of calculate_effective_tax_rate loss_tax loss_profit
      "Date 2009 1 1" "Fin 5" "Fin 0"]
  by (simp add: loss_tax_def loss_profit_def index_def value_at_def
      calculate_effective_tax_rate_def concat_inner_def fmul_def fdiv_def inf_of_def zero_of_def
      fin_def huge_def tiny_def)

section \<open>Fetching\<close>

lemmas sample_defs = pd_sample_def iso_dates_def plain_decimals_def number_def is_digit_def
  days_in_month_def leap_year_def zero_of_def answers_def unreachable_def nothing_yet_def
  CorporateTaxDataFetcher_def truthy_def send_def print_def convert_to_dataframe_def
  raises_for_status_def fin_def huge_def tiny_def Let_def

lemma datetime_column_dates:
  "\<forall>row \<in> set obs. to_datetime pd (fst row) = Inr (Some (dt (fst row))) \<Longrightarrow>
     datetime_column pd (map fst obs) = Inr (map (\<lambda>row. Some (dt (fst row))) obs)"
  by (induction obs) simp_all

lemma dropna_values:
  "dropna (zip (map (\<lambda>row. Some (f row)) obs) (map g obs))
     = map (\<lambda>row. (f row, g row)) (filter (\<lambda>row. \<not> is_nan (g row)) obs)"
  by (induction obs) simp_all

text \<open>When every date of the response is read as a date, the frame holds the rows whose
  value is a number, in the order of the response.\<close>

lemma convert_to_dataframe_rows:
  assumes "obs \<noteq> []"
      and "\<forall>row \<in> set obs. to_datetime pd (fst row) = Inr (Some (dt (fst row)))"
  shows "convert_to_dataframe pd obs =
           Inr (Frame (map (\<lambda>row. (dt (fst row), to_numeric pd (snd row)))
                           (filter (\<lambda>row. \<not> is_nan (to_numeric pd (snd row))) obs)))"
  using assms(1) datetime_column_dates [OF assms(2)]
  by (simp add: convert_to_dataframe_def dropna_values)

lemma fetch_series_ok:
  "truthy (api_key self) \<Longrightarrow> \<forall>req. net req = Returns r \<Longrightarrow> \<not> raises_for_status r \<Longrightarrow>
     observations r = Some obs \<Longrightarrow>
     fst (fetch_series pd net self series_id start_date end_date w) = convert_to_dataframe pd obs"
  by (auto simp: fetch_series_def Let_def)

lemma fetch_fred_series_ok:
  "\<forall>req. net req = Returns r \<Longrightarrow> observations r = Some obs \<Longrightarrow>
     fst (fetch_fred_series pd net series_id key start w) = convert_to_dataframe pd obs"
  by (simp add: fetch_fred_series_def Let_def)

lemma fetch_series_missing_example:
  "fst (fetch_series pd_sample (answers missing_example) (CorporateTaxDataFetcher (Some ''key''))
         ''FCTAX'' None None nothing_yet) = Inr (Frame [(Date 2020 1 1, Fin 5)])"
  by (simp add: fetch_series_def missing_example_def sample_defs)

lemma fetch_fred_series_missing_example:
  "fst (fetch_fred_series pd_sample (answers missing_example) ''FCTAX'' (Some ''key'')
         ''1950-01-01'' nothing_yet) = Inr (Frame [(Date 2020 1 1, Fin 5)])"
  by (simp add: fetch_fred_series_def missing_example_def sample_defs)

text \<open>
  C6. For a response that is parsed (a list of observations, not empty, each date read as
  a date), \<open>fetch_series\<close> and \<open>fetch_fred_series\<close> return the rows whose value string is
  coerced to a number, in the order of the response; a row whose value fails coercion
  (\<open>NaN\<close>, as for the mark \<open>.\<close> of a missing value) is dropped. The response with the
  observations \<open>("2020-01-01", "5.0")\<close> and \<open>("2020-04-01", ".")\<close> gives a series with the
  one observation of 1 January 2020.
\<close>

theorem uncoercible_rows_are_dropped:
  assumes "obs \<noteq> []"
      and "\<forall>row \<in> set obs. to_datetime pd (fst row) = Inr (Some (dt (fst row)))"
      and "truthy (api_key self)"
      and "\<forall>req. net req = Returns r" and "\<not> raises_for_status r"
      and "observations r = Some obs"
  shows "(\<exists>rows. fst (fetch_series pd net self series_id start_date end_date w) = Inr (Frame rows)
            \<and> fst (fetch_fred_series pd net series_id' key start w') = Inr (Frame rows)
            \<and> rows = map (\<lambda>row. (dt (fst row), to_numeric pd (snd row)))
                         (filter (\<lambda>row. \<not> is_nan (to_numeric pd (snd row))) obs))
       \<and> fst (fetch_series pd_sample (answers missing_example) (CorporateTaxDataFetcher (Some ''key''))
              ''FCTAX'' None None nothing_yet) = Inr (Frame [(Date 2020 1 1, Fin 5)])
       \<and> fst (fetch_fred_series pd_sample (answers missing_example) ''FCTAX'' (Some ''key'')
              ''1950-01-01'' nothing_yet) = Inr (Frame [(Date 2020 1 1, Fin 5)])"
  using convert_to_dataframe_rows [OF assms(1,2)]
    fetch_series_ok [OF assms(3,4,5,6)] fetch_fred_series_ok [OF assms(4,6)]
    fetch_series_missing_example fetch_fred_series_missing_example
  by simp

theorem uncoercible_rows_witness:
  "missing_example \<noteq> [] \<and> truthy (Some ''key'')
   \<and> plain_decimals ''.'' = NaN
   \<and> fst (fetch_series pd_sample (answers missing_example) (CorporateTaxDataFetcher (Some ''key''))
        ''FCTAX'' None None nothing_yet) = Inr (Frame [(Date 2020 1 1, Fin 5)])
   \<and> length [(Date 2020 1 1, Fin 5)] = 1"
  using uncoercible_rows_are_dropped [of missing_example pd_sample
      "\<lambda>s. if s = ''2020-01-01'' then Date 2020 1 1 else Date 2020 4 1"
      "CorporateTaxDataFetcher (Some ''key'')" "answers missing_example"
      "\<lparr>status_code = 200, http_error = [], observations = Some missing_example\<rparr>"
      "''FCTAX''" None None nothing_yet "''FCTAX''" "Some ''key''" "''1950-01-01''" nothing_yet]
  by (simp add: missing_example_def sample_defs)

text \<open>
  C4, as the code has it. In \<open>CorporateTaxDataFetcher.fetch_series\<close>, with a key set, a
  request that fails at the transport level or with an error status raises nothing: the
  call returns the empty \<open>pd.DataFrame()\<close>, one line \<open>Error fetching data for ...\<close> is
  printed, and one request was sent. (\<open>fetch_fred_series\<close> has no handler.)
\<close>

theorem fetch_series_failure_is_logged:
  assumes "truthy (api_key self)"
      and "\<forall>req. failure (net req) = Some e"
  shows "fst (fetch_series pd net self series_id start_date end_date w) = Inr NoColumns
       \<and> empty NoColumns
       \<and> stdout (snd (fetch_series pd net self series_id start_date end_date w))
           = stdout w @ [''Error fetching data for '' @ series_id @ '': '' @ e]
       \<and> length (sent (snd (fetch_series pd net self series_id start_date end_date w)))
           = length (sent w) + 1"
proof -
  let ?req = "\<lparr>url = base_url self,
      params = [(''series_id'', Some series_id), (''api_key'', api_key self),
                (''file_type'', Some ''json''), (''sort_order'', Some ''asc'')]
             @ (if truthy start_date then [(''observation_start'', start_date)] else [])
             @ (if truthy end_date then [(''observation_end'', end_date)] else [])\<rparr>"
  from assms(2) have "failure (net ?req) = Some e" by blast
  then show ?thesis
    using assms(1)
    by (cases "net ?req")
       (simp_all add: fetch_series_def Let_def failure_def empty_def print_def send_def
          split: if_splits)
qed

theorem fetch_series_failure_witness:
  "truthy (Some ''key'')
   \<and> fetch_series pd_sample (unreachable ''Connection refused'') (CorporateTaxDataFetcher (Some ''key''))
        ''FCTAX'' None None nothing_yet
     = (Inr NoColumns,
        \<lparr>sent = [\<lparr>url = ''https://api.stlouisfed.org/fred/series/observations'',
                   params = [(''series_id'', Some ''FCTAX''), (''api_key'', Some ''key''),
                             (''file_type'', Some ''json''), (''sort_order'', Some ''asc'')]\<rparr>],
         stdout = [''Error fetching data for FCTAX: Connection refused'']\<rparr>)"
  using fetch_series_failure_is_logged [of "CorporateTaxDataFetcher (Some ''key'')"
      "unreachable ''Connection refused''" "''Connection refused''" pd_sample "''FCTAX''" None None
      nothing_yet]
  by (simp add: fetch_series_def failure_def sample_defs)

text \<open>In \<open>fetch_fred_series\<close> the exception of a refused connection comes out of the call,
  and so does the \<open>KeyError\<close> on the error document of a status 500; nothing is printed.\<close>

theorem fetch_fred_series_failure_propagates:
  "fst (fetch_fred_series pd_sample (unreachable ''Connection refused'') ''FCTAX'' (Some ''key'')
          ''1950-01-01'' nothing_yet) = Inl (RequestException ''Connection refused'')
   \<and> stdout (snd (fetch_fred_series pd_sample (unreachable ''Connection refused'') ''FCTAX''
          (Some ''key'') ''1950-01-01'' nothing_yet)) = []
   \<and> fst (fetch_fred_series pd_sample server_error ''FCTAX'' (Some ''key'')
          ''1950-01-01'' nothing_yet) = Inl (KeyError ''observations'')
   \<and> stdout (snd (fetch_fred_series pd_sample server_error ''FCTAX'' (Some ''key'')
          ''1950-01-01'' nothing_yet)) = []"
  by (simp add: fetch_fred_series_def server_error_def sample_defs)

lemma fetch_series_no_key:
  "api_key self = None \<or> api_key self = Some '''' \<Longrightarrow>
     fetch_series pd net self series_id start_date end_date w =
       (Inl (ValueError
          ''API key not set. Get your free API key at: https://fred.stlouisfed.org/docs/api/api_key.html''),
        w)"
  by (auto simp: fetch_series_def truthy_def)

lemma sent_prints: "sent (prints ls w) = sent w"
  by (induction ls arbitrary: w) (simp_all add: prints_def print_def)

text \<open>
  C5, as the code has it. In \<open>CorporateTaxDataFetcher.fetch_series\<close>, with no key (\<open>None\<close>
  or the empty string), the call raises \<open>ValueError\<close> with the text that says where to
  get a key, and the world is as before: no request was sent. So
  \<open>fetch_all_corporate_tax_data\<close> ends with that error at its first fetch, with no request
  sent. (\<open>fetch_fred_series\<close> does not look at the key.)
\<close>

theorem fetch_series_without_key_fails_first:
  assumes "api_key self = None \<or> api_key self = Some ''''"
  shows "fetch_series pd net self series_id start_date end_date w =
           (Inl (ValueError
              ''API key not set. Get your free API key at: https://fred.stlouisfed.org/docs/api/api_key.html''),
            w)
       \<and> fst (fetch_all_corporate_tax_data pd net self start w) =
           Inl (ValueError
              ''API key not set. Get your free API key at: https://fred.stlouisfed.org/docs/api/api_key.html'')
       \<and> sent (snd (fetch_all_corporate_tax_data pd net self start w)) = sent w"
  by (simp add: fetch_series_no_key [OF assms] fetch_all_corporate_tax_data_def Let_def sent_prints)

theorem fetch_series_without_key_witness:
  "api_key (CorporateTaxDataFetcher None) = None
   \<and> snd (fetch_series pd_sample (answers missing_example) (CorporateTaxDataFetcher None)
        ''FCTAX'' (Some ''1950-01-01'') None nothing_yet) = \<lparr>sent = [], stdout = []\<rparr>"
  using fetch_series_without_key_fails_first [of "CorporateTaxDataFetcher None" pd_sample
      "answers missing_example" "''FCTAX''" "Some ''1950-01-01''" None nothing_yet]
  by (simp add: CorporateTaxDataFetcher_def nothing_yet_def)

text \<open>\<open>fetch_fred_series\<close> with the key \<open>None\<close>, and with the empty key: the request is
  sent, and what the server answers is returned.\<close>

theorem fetch_fred_series_sends_without_key:
  "fetch_fred_series pd_sample (answers missing_example) ''FCTAX'' None ''1950-01-01'' nothing_yet
     = (Inr (Frame [(Date 2020 1 1, Fin 5)]),
        \<lparr>sent = [\<lparr>url = ''https://api.stlouisfed.org/fred/series/observations'',
                   params = [(''series_id'', Some ''FCTAX''), (''api_key'', None),
                             (''file_type'', Some ''json''),
                             (''observation_start'', Some ''1950-01-01''),
                             (''sort_order'', Some ''asc'')]\<rparr>],
         stdout = []\<rparr>)
   \<and> fetch_fred_series pd_sample (answers missing_example) ''FCTAX'' (Some '''') ''1950-01-01'' nothing_yet
     = (Inr (Frame [(Date 2020 1 1, Fin 5)]),
        \<lparr>sent = [\<lparr>url = ''https://api.stlouisfed.org/fred/series/observations'',
                   params = [(''series_id'', Some ''FCTAX''), (''api_key'', Some ''''),
                             (''file_type'', Some ''json''),
                             (''observation_start'', Some ''1950-01-01''),
                             (''sort_order'', Some ''asc'')]\<rparr>],
         stdout = []\<rparr>)"
  by (simp add: fetch_fred_series_def missing_example_def sample_defs)

section \<open>The order of a series\<close>

lemma date_less_irrefl: "\<not> date_less d d"
  by (simp add: date_less_def)

lemma sorted_wrt_date_less_distinct: "sorted_wrt date_less ds \<Longrightarrow> distinct ds"
  by (induction ds) (auto simp: date_less_irrefl)

lemma ascending_distinct: "ascending s \<Longrightarrow> distinct (index s)"
  by (simp add: ascending_def sorted_wrt_date_less_distinct)

lemma ascending_rate_rows: "ascending a \<Longrightarrow> ascending (rate_rows a b)"
  by (simp add: ascending_def index_rate_rows sorted_wrt_filter)

lemma ascending_kept_rows:
  assumes "sorted_wrt date_less (map (\<lambda>row. dt (fst row)) obs)"
  shows "ascending (map (\<lambda>row. (dt (fst row), g row)) (filter P obs))"
proof -
  from assms have "sorted_wrt (\<lambda>x y. date_less (dt (fst x)) (dt (fst y))) obs"
    by (simp add: sorted_wrt_map)
  then have "sorted_wrt (\<lambda>x y. date_less (dt (fst x)) (dt (fst y))) (filter P obs)"
    by (rule sorted_wrt_filter)
  then show ?thesis
    by (simp add: ascending_def index_def sorted_wrt_map comp_def)
qed

lemma date_less_year_end: "Y < Z \<Longrightarrow> date_less (Date Y 12 31) (Date Z 12 31)"
  by (simp add: date_less_def)

lemma index_resample:
  "s \<noteq> [] \<Longrightarrow> index (resample_A_sum s)
      = map (\<lambda>Y. Date Y 12 31) [Min (set (years s)) .. Max (set (years s))]"
  by (simp add: resample_A_sum_def index_def comp_def)

lemma ascending_resample: "ascending (resample_A_sum s)"
proof (cases "s = []")
  case True
  then show ?thesis by (simp add: resample_A_sum_def ascending_def index_def)
next
  case False
  have "sorted_wrt (\<lambda>Y Z. date_less (Date Y 12 31) (Date Z 12 31)) [i..j]" for i j :: int
    by (rule sorted_wrt_mono_rel [OF _ sorted_wrt_upto]) (simp add: date_less_year_end)
  with False show ?thesis
    by (simp add: ascending_def index_resample sorted_wrt_map)
qed

text \<open>
  C9, as the code has it. The program asks the API for ascending order
  (\<open>sort_order = asc\<close>) and does not sort or remove repeated dates itself: a fetched
  series has the rows of the response in the order of the response. So when the dates of
  the response ascend strictly, the series that \<open>fetch_series\<close> and \<open>fetch_fred_series\<close>
  return is in ascending order with no date twice; the rate series of two such series is
  in ascending order with no date twice, over the dates of both; and a series resampled
  to years is in ascending order whatever the order of its rows was.
\<close>

theorem order_is_kept:
  assumes "obs \<noteq> []"
      and "\<forall>row \<in> set obs. to_datetime pd (fst row) = Inr (Some (dt (fst row)))"
      and "sorted_wrt date_less (map (\<lambda>row. dt (fst row)) obs)"
      and "truthy (api_key self)"
      and "\<forall>req. net req = Returns r" and "\<not> raises_for_status r"
      and "observations r = Some obs"
      and "f = calculate_effective_tax_rate \<or> f = calculate_effective_rate"
      and "ascending A" and "ascending B"
  shows "(\<exists>rows. fst (fetch_series pd net self series_id start_date end_date w) = Inr (Frame rows)
            \<and> fst (fetch_fred_series pd net series_id' key start w') = Inr (Frame rows)
            \<and> ascending rows \<and> distinct (index rows))
       \<and> (\<exists>rate. f A B = Inr rate \<and> ascending rate \<and> distinct (index rate)
            \<and> set (index rate) = set (index A) \<inter> set (index B))
       \<and> ascending (resample_A_sum S)"
proof -
  let ?rows = "map (\<lambda>row. (dt (fst row), to_numeric pd (snd row)))
                   (filter (\<lambda>row. \<not> is_nan (to_numeric pd (snd row))) obs)"
  have "convert_to_dataframe pd obs = Inr (Frame ?rows)"
    by (rule convert_to_dataframe_rows [OF assms(1,2)])
  then have "fst (fetch_series pd net self series_id start_date end_date w) = Inr (Frame ?rows)"
    and "fst (fetch_fred_series pd net series_id' key start w') = Inr (Frame ?rows)"
    using fetch_series_ok [OF assms(4,5,6,7)] fetch_fred_series_ok [OF assms(5,7)] by simp_all
  moreover have "ascending ?rows"
    by (rule ascending_kept_rows [OF assms(3)])
  ultimately have fetched:
    "\<exists>rows. fst (fetch_series pd net self series_id start_date end_date w) = Inr (Frame rows)
       \<and> fst (fetch_fred_series pd net series_id' key start w') = Inr (Frame rows)
       \<and> ascending rows \<and> distinct (index rows)"
    using ascending_distinct by blast
  from assms(8) have f: "f = calculate_effective_tax_rate"
    by (auto simp: calculate_effective_rate_eq)
  have "f A B = Inr (rate_rows A B)"
    using assms(9,10) by (simp add: f calculate_Inr ascending_distinct)
  moreover have "ascending (rate_rows A B)"
    using assms(9) by (rule ascending_rate_rows)
  moreover have "set (index (rate_rows A B)) = set (index A) \<inter> set (index B)"
    by (auto simp: index_rate_rows)
  ultimately have rate:
    "\<exists>rate. f A B = Inr rate \<and> ascending rate \<and> distinct (index rate)
       \<and> set (index rate) = set (index A) \<inter> set (index B)"
    using ascending_distinct by blast
  from fetched rate ascending_resample show ?thesis by blast
qed

theorem order_is_kept_witness:
  "fst (fetch_series pd_sample (answers missing_example) (CorporateTaxDataFetcher (Some ''key''))
        ''FCTAX'' None None nothing_yet) = Inr (Frame [(Date 2020 1 1, Fin 5)])
   \<and> ascending [(Date 2020 1 1, Fin 5)]
   \<and> ascending tax_example \<and> ascending profit_example
   \<and> calculate_effective_rate tax_example profit_example = Inr [(Date 2020 1 1, Fin 10)]"
  using order_is_kept [of missing_example pd_sample
      "\<lambda>s. if s = ''2020-01-01'' then Date 2020 1 1 else Date 2020 4 1"
      "CorporateTaxDataFetcher (Some ''key'')" "answers missing_example"
      "\<lparr>status_code = 200, http_error = [], observations = Some missing_example\<rparr>"
      calculate_effective_rate tax_example profit_example
      "''FCTAX''" None None nothing_yet "''FCTAX''" "Some ''key''" "''1950-01-01''" nothing_yet]
  by (simp add: missing_example_def sample_defs fetch_series_def ascending_def index_def
      date_less_def tax_example_def profit_example_def calculate_effective_rate_def
      concat_inner_def value_at_def fmul_def fdiv_def fin_def huge_def tiny_def)

text \<open>A response in descending order gives a series in descending order, and a response
  with a date twice gives a series with that date twice.\<close>

theorem fetched_order_is_the_response_order:
  "fst (fetch_series pd_sample (answers descending_example) (CorporateTaxDataFetcher (Some ''key''))
          ''FCTAX'' None None nothing_yet)
     = Inr (Frame [(Date 2020 4 1, Fin 1), (Date 2020 1 1, Fin 2)])
   \<and> \<not> ascending [(Date 2020 4 1, Fin 1), (Date 2020 1 1, Fin 2)]
   \<and> fst (fetch_series pd_sample (answers repeated_example) (CorporateTaxDataFetcher (Some ''key''))
          ''FCTAX'' None None nothing_yet)
     = Inr (Frame [(Date 2020 1 1, Fin 1), (Date 2020 1 1, Fin 2)])
   \<and> \<not> distinct (index [(Date 2020 1 1, Fin 1), (Date 2020 1 1, Fin 2)])"
  by (simp add: fetch_series_def descending_example_def repeated_example_def sample_defs
      ascending_def index_def date_less_def)

section \<open>Quarterly to annual\<close>

lemma fadd_Fin: "in_range (a + b) \<Longrightarrow> fadd (Fin a) (Fin b) = Fin (a + b)"
  by (simp add: fadd_def fin_in_range)

lemma partial_sums_start: "partial_sums_in_range a xs \<Longrightarrow> in_range a"
  by (cases xs) simp_all

lemma foldl_fadd_Fin:
  "partial_sums_in_range a xs \<Longrightarrow> foldl fadd (Fin a) (map Fin xs) = Fin (a + sum_list xs)"
proof (induction xs arbitrary: a)
  case Nil
  then show ?case by simp
next
  case (Cons x xs)
  then have rest: "partial_sums_in_range (a + x) xs" by simp
  then have "fadd (Fin a) (Fin x) = Fin (a + x)"
    by (simp add: fadd_Fin partial_sums_start)
  with Cons.IH [OF rest] show ?case by (simp add: add.assoc)
qed

lemma fsum_Fin: "sums_in_range xs \<Longrightarrow> fsum (map Fin xs) = Fin (sum_list xs)"
  using foldl_fadd_Fin [of 0 xs] by (simp add: fsum_def sums_in_range_def)

lemma notna_Fin: "notna (map Fin xs) = map Fin xs"
  by (induction xs) (simp_all add: notna_def)

lemma all_Fin: "\<forall>v \<in> set vs. \<exists>x. v = Fin x \<Longrightarrow> vs = map Fin (map mag vs)"
  by (induction vs) auto

text \<open>The sum of finite values is the value of their sum, when no partial sum leaves the
  range.\<close>

lemma fsum_finite_rows:
  assumes "\<forall>row \<in> set rows. \<exists>x. snd row = Fin x"
      and "sums_in_range (map (\<lambda>row. mag (snd row)) rows)"
  shows "fsum (notna (map snd rows)) = Fin (\<Sum>row\<leftarrow>rows. mag (snd row))"
proof -
  from assms have "\<forall>v \<in> set (map snd rows). \<exists>x. v = Fin x" by auto
  then have "map snd rows = map Fin (map mag (map snd rows))" by (rule all_Fin)
  moreover have "sums_in_range (map mag (map snd rows))" using assms(2) by (simp add: comp_def)
  ultimately have "fsum (notna (map snd rows)) = Fin (sum_list (map mag (map snd rows)))"
    by (metis notna_Fin fsum_Fin)
  then show ?thesis by (simp add: comp_def)
qed

lemma map_of_keyed:
  "inj f \<Longrightarrow> k \<in> set ks \<Longrightarrow> map_of (map (\<lambda>k. (f k, g k)) ks) (f k) = Some (g k)"
  by (induction ks) (auto dest: injD)

lemma inj_year_end: "inj (\<lambda>Y. Date Y 12 31)"
  by (simp add: inj_def)

lemma value_at_resample:
  assumes "s \<noteq> []" and "Min (set (years s)) \<le> Y" and "Y \<le> Max (set (years s))"
  shows "value_at (resample_A_sum s) (Date Y 12 31)
           = Some (fsum (notna (map snd (filter (\<lambda>row. year (fst row) = Y) s))))"
proof -
  have "Y \<in> set [Min (set (years s)) .. Max (set (years s))]" using assms(2,3) by simp
  then show ?thesis
    using assms(1) map_of_keyed [OF inj_year_end, of Y _
        "\<lambda>Y. fsum (notna (map snd (filter (\<lambda>row. year (fst row) = Y) s)))"]
    by (simp add: resample_A_sum_def value_at_def)
qed

lemma years_in_span:
  "Y \<in> set (years s) \<Longrightarrow> Min (set (years s)) \<le> Y \<and> Y \<le> Max (set (years s))"
  by simp

lemma no_rows_of_year: "Y \<notin> set (years s) \<Longrightarrow> filter (\<lambda>row. year (fst row) = Y) s = []"
  by (induction s) (auto simp: years_def)

lemma fsum_Nil: "fsum (notna []) = Fin 0"
  by (simp add: fsum_def notna_def)

lemma annual_rate_resamples:
  "s \<noteq> [] \<Longrightarrow> fst (annual_rate (Frame t) (Frame s) w)
     = and_then (calculate_effective_tax_rate (resample_A_sum t) (resample_A_sum s))
         (\<lambda>rate. Inr [(''effective_tax_rate_annual'', Series rate)])"
  by (simp add: annual_rate_def empty_def and_then_def resample_A_sum_frame_def value_column_def)

text \<open>
  C3, as the code has it. Resampling a series that is not empty to years by summation
  gives one observation for each calendar year from the year of the earliest row to the
  year of the latest, dated at the year's last day. Its value is the sum of the rows dated
  in that year (for finite values whose partial sums stay in the range of the doubles,
  their sum as real numbers), so every year that has a
  row has its sum; a year of that span with no row has an observation too, with the value
  0; a year outside the span has none, and an empty series gives an empty series. In
  \<open>fetch_all_corporate_tax_data\<close> the annual rate is calculated from the two fetched
  frames resampled in this way.
\<close>

theorem resample_sums_the_years_of_the_span:
  assumes "s \<noteq> []"
  shows "index (resample_A_sum s)
           = map (\<lambda>Y. Date Y 12 31) [Min (set (years s)) .. Max (set (years s))]
       \<and> (\<forall>Y. Min (set (years s)) \<le> Y \<and> Y \<le> Max (set (years s)) \<longrightarrow>
             value_at (resample_A_sum s) (Date Y 12 31)
               = Some (fsum (notna (map snd (filter (\<lambda>row. year (fst row) = Y) s)))))
       \<and> (\<forall>Y \<in> set (years s). Min (set (years s)) \<le> Y \<and> Y \<le> Max (set (years s)))
       \<and> (\<forall>Y. Y \<notin> set (years s) \<and> Min (set (years s)) \<le> Y \<and> Y \<le> Max (set (years s)) \<longrightarrow>
             value_at (resample_A_sum s) (Date Y 12 31) = Some (Fin 0))
       \<and> (\<forall>d. year d < Min (set (years s)) \<or> Max (set (years s)) < year d \<longrightarrow>
             d \<notin> set (index (resample_A_sum s)))
       \<and> (\<forall>rows. (\<forall>row \<in> set rows. \<exists>x. snd row = Fin x)
                  \<and> sums_in_range (map (\<lambda>row. mag (snd row)) rows) \<longrightarrow>
             fsum (notna (map snd rows)) = Fin (\<Sum>row\<leftarrow>rows. mag (snd row)))
       \<and> resample_A_sum [] = []
       \<and> (\<forall>t w. fst (annual_rate (Frame t) (Frame s) w)
             = and_then (calculate_effective_tax_rate (resample_A_sum t) (resample_A_sum s))
                 (\<lambda>rate. Inr [(''effective_tax_rate_annual'', Series rate)]))"
proof -
  have "value_at (resample_A_sum s) (Date Y 12 31) = Some (Fin 0)"
    if "Y \<notin> set (years s) \<and> Min (set (years s)) \<le> Y \<and> Y \<le> Max (set (years s))" for Y
    using that value_at_resample [OF assms, of Y] by (simp add: no_rows_of_year fsum_Nil)
  moreover have "d \<notin> set (index (resample_A_sum s))"
    if "year d < Min (set (years s)) \<or> Max (set (years s)) < year d" for d
    using that by (auto simp: index_resample [OF assms])
  moreover have "resample_A_sum [] = []" by (simp add: resample_A_sum_def)
  ultimately show ?thesis
    using index_resample [OF assms] value_at_resample [OF assms] years_in_span fsum_finite_rows
      annual_rate_resamples [OF assms]
    by blast
qed

theorem resample_witness:
  "gap_example \<noteq> []
   \<and> index (resample_A_sum gap_example) = [Date 2018 12 31, Date 2019 12 31, Date 2020 12 31]
   \<and> value_at (resample_A_sum gap_example) (Date 2018 12 31) = Some (Fin 4)"
  using resample_sums_the_years_of_the_span [of gap_example]
  by (simp add: gap_example_def resample_A_sum_def years_def fsum_def notna_def fadd_def
      index_def value_at_def fin_def huge_def tiny_def)

text \<open>Rows in 2018 and in 2020 and none in 2019: the year 2019 has an annual
  observation, with the value 0.\<close>

theorem resample_fills_a_gap_year:
  "resample_A_sum gap_example
     = [(Date 2018 12 31, Fin 4), (Date 2019 12 31, Fin 0), (Date 2020 12 31, Fin 2)]
   \<and> 2019 \<notin> set (years gap_example)"
  by (simp add: gap_example_def resample_A_sum_def years_def fsum_def notna_def fadd_def
      fin_def huge_def tiny_def)

section \<open>Summary statistics\<close>




lemma summary_annual_written:
  assumes "notna (map snd r) \<noteq> []"
  shows "summary_annual r
           = \<lparr>std_dev = Some (std 1 (map snd r)), decade_averages = [], raised = None\<rparr>"
proof -
  from assms have "r \<noteq> []" by (auto simp: notna_def)
  with assms show ?thesis by (simp add: summary_annual_def)
qed


lemma fdiv_Fin_pos: "0 < k \<Longrightarrow> in_range (s / k) \<Longrightarrow> fdiv (Fin s) (Fin k) = Fin (s / k)"
  by (simp add: fdiv_def zero_of_def fin_in_range)















lemma fsub_Fin: "in_range a \<Longrightarrow> in_range (a - b) \<Longrightarrow> fsub (Fin a) (Fin b) = Fin (a - b)"
  by (simp add: fsub_def fadd_def fin_in_range)

lemma fmul_Fin_square: "in_range (z\<^sup>2) \<Longrightarrow> fmul (Fin z) (Fin z) = Fin (z\<^sup>2)"
  by (simp add: fmul_def zero_of_def power2_eq_square fin_in_range)

lemma squared_deviations:
  assumes "in_range m"
  shows "list_all (\<lambda>x. in_range (m - x) \<and> in_range ((x - m)\<^sup>2)) xs \<Longrightarrow>
     map (\<lambda>x. fmul (fsub (Fin m) x) (fsub (Fin m) x)) (map Fin xs)
       = map Fin (map (\<lambda>x. (x - m)\<^sup>2) xs)"
proof (induction xs)
  case Nil
  show ?case by simp
next
  case (Cons x xs)
  then have d: "in_range (m - x)" and q: "in_range ((m - x)\<^sup>2)"
    by (simp_all add: power2_commute)
  have "fmul (fsub (Fin m) (Fin x)) (fsub (Fin m) (Fin x)) = Fin ((x - m)\<^sup>2)"
    by (simp only: fsub_Fin [OF assms d] fmul_Fin_square [OF q] power2_commute [of m x])
  with Cons show ?case by simp
qed

text \<open>The variance with \<open>ddof = 1\<close> of two or more finite values, when no step leaves the
  range.\<close>

lemma var_finite:
  assumes "notna vs = map Fin xs" and "2 \<le> length xs" and "std_in_range xs"
  shows "var 1 vs
    = Fin ((\<Sum>x\<leftarrow>xs. (x - sum_list xs / real (length xs))\<^sup>2) / (real (length xs) - 1))"
proof -
  let ?avg = "fdiv (fsum (map Fin xs)) (Fin (real (length xs)))"
  let ?m = "sum_list xs / real (length xs)"
  let ?ss = "\<Sum>x\<leftarrow>xs. (x - ?m)\<^sup>2"
  from assms(3) have s: "sums_in_range xs" and m: "in_range ?m"
    and d: "list_all (\<lambda>x. in_range (?m - x) \<and> in_range ((x - ?m)\<^sup>2)) xs"
    and sq: "sums_in_range (map (\<lambda>x. (x - ?m)\<^sup>2) xs)"
    and v: "in_range (?ss / (real (length xs) - 1))"
    by (simp_all add: std_in_range_def Let_def)
  from assms(2) have "xs \<noteq> []" by auto
  then have n: "0 < real (length xs)" by simp
  from assms(2) have k: "0 < real (length xs) - 1" by simp
  have r: "real (length xs - 1) = real (length xs) - 1" using assms(2) by simp
  have avg: "?avg = Fin ?m"
    by (simp only: fsum_Fin [OF s] fdiv_Fin_pos [OF n m])
  have "var 1 vs = fdiv (fsum (map (\<lambda>x. fmul (fsub ?avg x) (fsub ?avg x)) (map Fin xs)))
                        (Fin (real (length xs - 1)))"
    unfolding var_def Let_def assms(1) length_map using assms(2) by simp
  also have "\<dots> = fdiv (fsum (map Fin (map (\<lambda>x. (x - ?m)\<^sup>2) xs))) (Fin (real (length xs) - 1))"
    by (simp only: avg squared_deviations [OF m d] r)
  also have "\<dots> = Fin (?ss / (real (length xs) - 1))"
    by (simp only: fsum_Fin [OF sq] fdiv_Fin_pos [OF k v])
  finally show ?thesis .
qed

lemma var_too_few: "length (notna vs) \<le> ddof \<Longrightarrow> var ddof vs = NaN"
  by (simp add: var_def Let_def)

lemma sum_of_squares_nonneg: "0 \<le> (\<Sum>x\<leftarrow>xs. (x - m)\<^sup>2)" for m :: real
  by (induction xs) simp_all

lemma std_finite:
  assumes "notna vs = map Fin xs" and "2 \<le> length xs" and "std_in_range xs"
  shows "std 1 vs = Fin (sample_std xs)"
proof -
  let ?ss = "\<Sum>x\<leftarrow>xs. (x - sum_list xs / real (length xs))\<^sup>2"
  have "0 \<le> ?ss / (real (length xs) - 1)"
    using sum_of_squares_nonneg [of "sum_list xs / real (length xs)" xs] assms(2) by simp
  then have q: "fsqrt (Fin (?ss / (real (length xs) - 1))) = Fin (sqrt (?ss / (real (length xs) - 1)))"
    by simp
  show ?thesis
    by (simp only: std_def var_finite [OF assms] q sample_std_def Let_def)
qed

text \<open>The computation as it is, with its denominator, whatever overflows.\<close>

lemma std_formula:
  assumes "notna vs = map Fin xs" and "2 \<le> length xs"
  shows "std 1 vs =
     fsqrt (fdiv (fsum (map (\<lambda>v. fmul (fsub (fdiv (fsum (map Fin xs)) (Fin (real (length xs)))) v)
                                      (fsub (fdiv (fsum (map Fin xs)) (Fin (real (length xs)))) v))
                            (map Fin xs)))
                 (Fin (real (length xs) - 1)))"
proof -
  have r: "real (length xs - 1) = real (length xs) - 1" using assms(2) by simp
  have "std 1 vs =
     fsqrt (fdiv (fsum (map (\<lambda>v. fmul (fsub (fdiv (fsum (map Fin xs)) (Fin (real (length xs)))) v)
                                      (fsub (fdiv (fsum (map Fin xs)) (Fin (real (length xs)))) v))
                            (map Fin xs)))
                 (Fin (real (length xs - 1))))"
    unfolding std_def var_def Let_def assms(1) length_map using assms(2) by simp
  then show ?thesis by (simp only: r)
qed

lemma std_few: "notna vs = map Fin xs \<Longrightarrow> length xs \<le> 1 \<Longrightarrow> std 1 vs = NaN"
  by (simp add: std_def var_too_few)

lemma std_dev_written:
  "rate \<noteq> [] \<Longrightarrow> std_dev (summary_quarterly rate) = Some (std 1 (map snd rate))
     \<and> std_dev (summary_annual rate) = Some (std 1 (map snd rate))"
  by (simp add: summary_quarterly_def summary_annual_def)

lemma summary_of_no_row:
  "std_dev (summary_quarterly []) = None
   \<and> raised (summary_quarterly [])
       = Some (IndexError ''index 0 is out of bounds for axis 0 with size 0'')
   \<and> std_dev (summary_annual []) = None
   \<and> raised (summary_annual [])
       = Some (IndexError ''index 0 is out of bounds for axis 0 with size 0'')"
  by (simp add: summary_quarterly_def summary_annual_def)

text \<open>
  C8. The standard deviation on the line \<open>Std Dev\<close> of \<open>summary_statistics\<close>, for the
  quarterly and for the annual rates, is the sample standard deviation. The line is
  written for every rate series with a row, and for none without (\<open>IndexError\<close>). For a
  rate series whose values, the missing ones left out, are the \<open>N\<close> finite numbers \<open>xs\<close>:
  with \<open>N\<close> of 2 or more the number is the square root of the sum of the squared
  deviations from the mean divided by \<open>N - 1\<close>, as doubles compute it, and when no step
  leaves the range of the doubles that is the sample standard deviation of the real
  numbers; with \<open>N\<close> of 1 or 0 it is \<open>NaN\<close> (the denominator \<open>N - 1\<close> leaves nothing to
  divide by).
\<close>

theorem std_dev_is_sample_std:
  assumes "notna (map snd rate) = map Fin xs"
  shows "(rate \<noteq> [] \<longrightarrow>
            std_dev (summary_quarterly rate) \<noteq> None
          \<and> std_dev (summary_annual rate) = std_dev (summary_quarterly rate))
       \<and> (2 \<le> length xs \<longrightarrow>
            std_dev (summary_quarterly rate) =
              Some (fsqrt (fdiv
                (fsum (map (\<lambda>v. fmul (fsub (fdiv (fsum (map Fin xs)) (Fin (real (length xs)))) v)
                                     (fsub (fdiv (fsum (map Fin xs)) (Fin (real (length xs)))) v))
                           (map Fin xs)))
                (Fin (real (length xs) - 1)))))
       \<and> (2 \<le> length xs \<and> std_in_range xs \<longrightarrow>
            std_dev (summary_quarterly rate) = Some (Fin (sample_std xs)))
       \<and> (rate \<noteq> [] \<and> length xs \<le> 1 \<longrightarrow> std_dev (summary_quarterly rate) = Some NaN)
       \<and> (rate = [] \<longrightarrow>
            std_dev (summary_quarterly rate) = None \<and> std_dev (summary_annual rate) = None
          \<and> raised (summary_quarterly rate) \<noteq> None \<and> raised (summary_annual rate) \<noteq> None)"
proof -
  have rows: "rate \<noteq> []" if "2 \<le> length xs"
    using that assms by (auto simp: notna_def)
  have "std_dev (summary_quarterly rate) \<noteq> None
      \<and> std_dev (summary_annual rate) = std_dev (summary_quarterly rate)" if "rate \<noteq> []"
    using std_dev_written [OF that] by simp
  moreover have "std_dev (summary_quarterly rate) =
              Some (fsqrt (fdiv
                (fsum (map (\<lambda>v. fmul (fsub (fdiv (fsum (map Fin xs)) (Fin (real (length xs)))) v)
                                     (fsub (fdiv (fsum (map Fin xs)) (Fin (real (length xs)))) v))
                           (map Fin xs)))
                (Fin (real (length xs) - 1))))" if "2 \<le> length xs"
    using std_dev_written [OF rows [OF that]] std_formula [OF assms that] by simp
  moreover have "std_dev (summary_quarterly rate) = Some (Fin (sample_std xs))"
    if "2 \<le> length xs \<and> std_in_range xs"
    using that std_dev_written [OF rows] std_finite [OF assms] by simp
  moreover have "std_dev (summary_quarterly rate) = Some NaN" if "rate \<noteq> [] \<and> length xs \<le> 1"
    using that std_dev_written [of rate] std_few [OF assms] by simp
  moreover have "std_dev (summary_quarterly rate) = None \<and> std_dev (summary_annual rate) = None
          \<and> raised (summary_quarterly rate) \<noteq> None \<and> raised (summary_annual rate) \<noteq> None"
    if "rate = []"
    using that summary_of_no_row by simp
  ultimately show ?thesis by blast
qed

text \<open>The rates 0, 2 and 4 and a year with no rate: the squared deviations sum to 8, and
  the standard deviation is 2, the root of 8 / 2, not of 8 / 3.\<close>

theorem std_dev_witness:
  "notna (map snd spread_example) = map Fin [0, 2, 4]
   \<and> std_in_range [0, 2, 4]
   \<and> std_dev (summary_annual spread_example) = Some (Fin 2)
   \<and> std_dev (summary_quarterly spread_example) = Some (Fin 2)
   \<and> sample_std [0, 2, 4] = 2"
proof -
  have n: "notna (map snd spread_example) = map Fin [0, 2, 4]"
    by (simp add: spread_example_def notna_def)
  have s: "sample_std [0, 2, 4] = 2"
    by (simp add: sample_std_def Let_def power2_eq_square)
  have r: "std_in_range [0, 2, 4]"
    by (simp add: std_in_range_def sums_in_range_def in_range_def huge_def tiny_def Let_def
        power2_eq_square)
  have e: "spread_example \<noteq> []" by (simp add: spread_example_def)
  from std_dev_is_sample_std [OF n] s r n e show ?thesis by auto
qed

text \<open>An empty rate series: nothing is written. A series whose only rate is \<open>0 / 0\<close>: the
  line \<open>Std Dev\<close> is written with \<open>NaN\<close>, and then the function raises; the annual block is
  not reached.\<close>

lemma summary_statistics_raises:
  "summary_statistics [(''effective_tax_rate_quarterly'', Series []),
                       (''effective_tax_rate_annual'', Series spread_example)]
     = (Some \<lparr>std_dev = None, decade_averages = [],
              raised = Some (IndexError ''index 0 is out of bounds for axis 0 with size 0'')\<rparr>,
        None)
   \<and> summary_statistics [(''effective_tax_rate_quarterly'', Series [(Date 2009 4 1, NaN)])]
     = (Some \<lparr>std_dev = Some NaN, decade_averages = [],
              raised = Some (AttributeError ''strftime'')\<rparr>,
        None)"
  by (simp add: summary_statistics_def summary_of_def summary_quarterly_def notna_def
      std_def var_def Let_def)

end
